theory Spec2Isabelle
  imports Complex_Main "HOL-Library.Word" "HOL-Library.AList"
begin

section \<open>Strings of the page\<close>

text \<open>
  A JavaScript string is a sequence of 16-bit code units. \<open>String.prototype.trim\<close> and
  a regular expression without the \<open>u\<close> flag both work code unit by code unit, so the
  strings of \<open>page.tsx\<close> are lists of 16-bit words. \<open>js\<close> reads an ASCII literal
  of the source as such a list.
\<close>

type_synonym jsstring = "16 word list"

definition js :: "string \<Rightarrow> jsstring" where
  "js s = map of_char s"

text \<open>
  The white space that \<open>trim\<close> removes: the WhiteSpace and LineTerminator code points
  of ECMAScript (TAB, VT, FF, ZWNBSP, the space separators, LF, CR, LS, PS).
\<close>

definition isWhiteSpace :: "16 word \<Rightarrow> bool" where
  "isWhiteSpace c =
     (c = 0x0009 \<or> c = 0x000A \<or> c = 0x000B \<or> c = 0x000C \<or> c = 0x000D \<or> c = 0x0020
      \<or> c = 0x00A0 \<or> c = 0x1680 \<or> (0x2000 \<le> c \<and> c \<le> 0x200A)
      \<or> c = 0x2028 \<or> c = 0x2029 \<or> c = 0x202F \<or> c = 0x205F \<or> c = 0x3000 \<or> c = 0xFEFF)"

definition trim :: "jsstring \<Rightarrow> jsstring" where
  "trim s = rev (dropWhile isWhiteSpace (rev (dropWhile isWhiteSpace s)))"

text \<open>The character class \<open>\d\<close>, which is \<open>[0-9]\<close>, and the literal \<open>\.\<close>.\<close>

definition isDigit :: "16 word \<Rightarrow> bool" where
  "isDigit c = (0x0030 \<le> c \<and> c \<le> 0x0039)"

definition dot :: "16 word" where
  "dot = 0x002E"

text \<open>
  \<open>/^\d+(\.\d{1,2})?$/.test(s)\<close>. The greedy \<open>\d+\<close> has to take the whole leading run
  of digits, since what follows it is a dot or the end of the input; the rest is then empty
  or a dot with one or two digits up to the end. Without the \<open>m\<close> flag \<open>$\<close> is the end
  of the input only.
\<close>

definition priceRegexTest :: "jsstring \<Rightarrow> bool" where
  "priceRegexTest s =
     (takeWhile isDigit s \<noteq> [] \<and>
      (case dropWhile isDigit s of
         [] \<Rightarrow> True
       | c # fs \<Rightarrow> c = dot \<and> (length fs = 1 \<or> length fs = 2) \<and> list_all isDigit fs))"

section \<open>The data of the page\<close>

text \<open>The two union types of string literals, with the string each value is.\<close>

datatype clothing_use = NotWorn | LightWear | MediumWear | HeavyWear

datatype years_old = LessThan1Year | Years1to2 | Years2to4 | Years4plus

fun clothingUseText :: "clothing_use \<Rightarrow> jsstring" where
  "clothingUseText NotWorn = js ''Not Worn''"
| "clothingUseText LightWear = js ''Light Wear''"
| "clothingUseText MediumWear = js ''Medium Wear''"
| "clothingUseText HeavyWear = js ''Heavy Wear''"

fun yearsOldText :: "years_old \<Rightarrow> jsstring" where
  "yearsOldText LessThan1Year = js ''Less than 1 year''"
| "yearsOldText Years1to2 = js ''1-2 years''"
| "yearsOldText Years2to4 = js ''2-4 years''"
| "yearsOldText Years4plus = js ''4+ years''"

record FormData =
  brand :: jsstring
  category :: jsstring
  originalPrice :: jsstring
  clothingUse :: clothing_use
  yearsOld :: years_old

record Result =
  estimatedPrice :: jsstring
  data :: FormData

text \<open>
  The four \<open>useState\<close> cells of \<open>Home\<close>. \<open>errors\<close> is a
  \<open>Record<string, string | null>\<close>: an object whose keys keep their insertion order, so
  an association list; \<open>None\<close> is the value \<open>null\<close>.
\<close>

record home_state =
  formData :: FormData
  result :: "Result option"
  errors :: "(jsstring \<times> jsstring option) list"
  isLoading :: bool

definition initialFormData :: FormData where
  "initialFormData =
     \<lparr>brand = [], category = [], originalPrice = [],
      clothingUse = NotWorn, yearsOld = LessThan1Year\<rparr>"

definition initialState :: home_state where
  "initialState = \<lparr>formData = initialFormData, result = None, errors = [], isLoading = False\<rparr>"

section \<open>handleChange\<close>

text \<open>
  \<open>e.target\<close> is one of the five controls that carry \<open>onChange={handleChange}\<close>: three
  text inputs with any string as value, two selects with one of their options.
\<close>

datatype target =
    BrandInput jsstring
  | CategoryInput jsstring
  | OriginalPriceInput jsstring
  | ClothingUseSelect clothing_use
  | YearsOldSelect years_old

fun targetName :: "target \<Rightarrow> jsstring" where
  "targetName (BrandInput v) = js ''brand''"
| "targetName (CategoryInput v) = js ''category''"
| "targetName (OriginalPriceInput v) = js ''originalPrice''"
| "targetName (ClothingUseSelect v) = js ''clothingUse''"
| "targetName (YearsOldSelect v) = js ''yearsOld''"

text \<open>\<open>{...formData, [name]: value}\<close>\<close>

fun assignField :: "target \<Rightarrow> FormData \<Rightarrow> FormData" where
  "assignField (BrandInput v) fd = fd\<lparr>brand := v\<rparr>"
| "assignField (CategoryInput v) fd = fd\<lparr>category := v\<rparr>"
| "assignField (OriginalPriceInput v) fd = fd\<lparr>originalPrice := v\<rparr>"
| "assignField (ClothingUseSelect v) fd = fd\<lparr>clothingUse := v\<rparr>"
| "assignField (YearsOldSelect v) fd = fd\<lparr>yearsOld := v\<rparr>"

text \<open>
  The truth value of \<open>errors[name]\<close>: a missing key (\<open>undefined\<close>), \<open>null\<close> and the
  empty string are falsy.
\<close>

fun truthy :: "jsstring option option \<Rightarrow> bool" where
  "truthy None = False"
| "truthy (Some None) = False"
| "truthy (Some (Some v)) = (v \<noteq> [])"

definition handleChange :: "target \<Rightarrow> home_state \<Rightarrow> home_state" where
  "handleChange t s =
     (let s1 = s\<lparr>formData := assignField t (formData s)\<rparr>
      in if truthy (map_of (errors s) (targetName t))
         then s1\<lparr>errors := AList.update (targetName t) None (errors s)\<rparr>
         else s1)"

section \<open>validateForm\<close>

text \<open>
  The object \<open>newErrors\<close> that \<open>validateForm\<close> builds from the form: its keys in the
  order of the three \<open>if\<close> statements. \<open>!x.trim()\<close> holds when the trimmed string is
  empty. The pattern is tested on the price as typed, not on the trimmed one.
\<close>

definition newErrors :: "FormData \<Rightarrow> (jsstring \<times> jsstring) list" where
  "newErrors fd =
     (if trim (brand fd) = [] then [(js ''brand'', js ''Brand name is required'')] else [])
     @ (if trim (category fd) = [] then [(js ''category'', js ''Category is required'')] else [])
     @ (if trim (originalPrice fd) = []
        then [(js ''originalPrice'', js ''Original price is required'')]
        else if \<not> priceRegexTest (originalPrice fd)
        then [(js ''originalPrice'', js ''Please enter a valid number'')]
        else [])"

text \<open>
  \<open>validateForm\<close> stores the object with \<open>setErrors\<close> and returns
  \<open>Object.keys(newErrors).length === 0\<close>.
\<close>

definition validateForm :: "home_state \<Rightarrow> bool \<times> home_state" where
  "validateForm s =
     (let ne = newErrors (formData s)
      in (length (map fst ne) = 0, s\<lparr>errors := map (\<lambda>(k, v). (k, Some v)) ne\<rparr>))"

section \<open>handleSubmit\<close>

text \<open>The argument of \<open>client.chat.completions.create\<close>.\<close>

datatype role = System | User

record completion_params =
  model :: jsstring
  messages :: "(role \<times> jsstring) list"
  max_tokens :: nat
  temperature :: rat
  n_completions :: nat

definition prompt :: "FormData \<Rightarrow> jsstring" where
  "prompt fd =
     js ''Estimate the resale value of a '' @ category fd @ js '' from '' @ brand fd
     @ js '' that is '' @ clothingUseText (clothingUse fd) @ js '' and ''
     @ yearsOldText (yearsOld fd) @ js '' old. The original price was $'' @ originalPrice fd
     @ js ''. Output only the number amount you think it would cost.''"

definition createParams :: "FormData \<Rightarrow> completion_params" where
  "createParams fd =
     \<lparr>model = js ''gpt-4o-mini-2024-07-18'',
      messages = [(System, js ''You are a helpful assistant.''), (User, prompt fd)],
      max_tokens = 300,
      temperature = 7 / 10,
      n_completions = 1\<rparr>"

text \<open>
  What the awaited call comes back with. The client is not part of the repository: the
  promise is rejected (no connection, a status that is not 2xx, a body that cannot be
  read), or it resolves to a completion object with its list of choices.
  \<open>content\<close> is \<open>string | null\<close>.
\<close>

datatype error = NetworkFailure | BadStatus nat | MalformedResponse | TypeError

datatype message = Message (content: "jsstring option")

datatype choice = Choice (message: message)

datatype chat_completion = ChatCompletion (choices: "choice list")

datatype outcome = Rejected error | Resolved chat_completion

text \<open>
  \<open>response.choices[0].message.content || ''\<close>: with no choice at all,
  \<open>choices[0]\<close> is \<open>undefined\<close> and reading \<open>.message\<close> throws a TypeError.
\<close>

definition rawContent :: "chat_completion \<Rightarrow> error + jsstring" where
  "rawContent response =
     (case choices response of
        [] \<Rightarrow> Inl TypeError
      | c # _ \<Rightarrow> Inr (case content (message c) of None \<Rightarrow> [] | Some t \<Rightarrow> t))"

text \<open>
  The first two statements of the \<open>try\<close> block: the awaited call and the reading of
  \<open>rawContent\<close>. They throw (\<open>Inl\<close>) when the promise is rejected or the reading
  throws.
\<close>

definition awaitContent :: "outcome \<Rightarrow> error + jsstring" where
  "awaitContent out =
     (case out of Rejected e \<Rightarrow> Inl e | Resolved response \<Rightarrow> rawContent response)"

text \<open>\<open>rawContent.replace(/[^0-9.]/g, '')\<close>\<close>

definition numericPrice :: "jsstring \<Rightarrow> jsstring" where
  "numericPrice raw = filter (\<lambda>c. isDigit c \<or> c = dot) raw"

text \<open>\<open>numericPrice || '0'\<close>\<close>

definition estimatedPriceOf :: "jsstring \<Rightarrow> jsstring" where
  "estimatedPriceOf raw = (if numericPrice raw = [] then js ''0'' else numericPrice raw)"

type_synonym log_entry = "jsstring \<times> error"

text \<open>
  \<open>handleSubmit\<close> is an \<open>async\<close> function with one \<open>await\<close>. Up to the await it
  validates, sets the loading flag and issues the request.
\<close>

definition handleSubmit_request :: "home_state \<Rightarrow> home_state \<times> completion_params option" where
  "handleSubmit_request s =
     (if \<not> fst (validateForm s) then (snd (validateForm s), None)
      else ((snd (validateForm s))\<lparr>isLoading := True\<rparr>, Some (createParams (formData s))))"

text \<open>
  After the await, the rest of the \<open>try\<close> block, the \<open>catch\<close> and the \<open>finally\<close>.
  \<open>fd\<close> is the \<open>formData\<close> of the closure, the one that was validated and sent;
  \<open>s\<close> is the state at the time the promise settles.
\<close>

definition handleSubmit_settle ::
    "FormData \<Rightarrow> outcome \<Rightarrow> home_state \<Rightarrow> home_state \<times> log_entry list" where
  "handleSubmit_settle fd out s =
     (case awaitContent out of
        Inl e \<Rightarrow> (s\<lparr>isLoading := False\<rparr>, [(js ''Error calling GPT API:'', e)])
      | Inr raw \<Rightarrow>
          (s\<lparr>result := Some \<lparr>estimatedPrice = estimatedPriceOf raw, data = fd\<rparr>,
             isLoading := False\<rparr>, []))"

text \<open>
  One whole run of \<open>handleSubmit\<close> against a client that is a function of the request:
  the state at the end, the requests issued and the lines written to the console.
\<close>

record submit_run =
  final :: home_state
  calls :: "completion_params list"
  logged :: "log_entry list"

definition handleSubmit :: "(completion_params \<Rightarrow> outcome) \<Rightarrow> home_state \<Rightarrow> submit_run" where
  "handleSubmit client s =
     (case handleSubmit_request s of
        (s1, None) \<Rightarrow> \<lparr>final = s1, calls = [], logged = []\<rparr>
      | (s1, Some req) \<Rightarrow>
          \<lparr>final = fst (handleSubmit_settle (formData s) (client req) s1),
           calls = [req],
           logged = snd (handleSubmit_settle (formData s) (client req) s1)\<rparr>)"

section \<open>handleReset\<close>

definition handleReset :: "home_state \<Rightarrow> home_state" where
  "handleReset s =
     s\<lparr>formData :=
         \<lparr>brand = [], category = [], originalPrice = [],
          clothingUse = NotWorn, yearsOld = LessThan1Year\<rparr>,
       result := None,
       errors := []\<rparr>"

section \<open>The page as a transition system\<close>

text \<open>
  Between two events the page holds the state of \<open>Home\<close>, the submitted forms of the
  \<open>handleSubmit\<close> calls that wait for their answer, the requests sent so far and the
  console. \<open>Settle i out\<close> is the answer \<open>out\<close> to the \<open>i\<close>-th waiting call.
\<close>

record page =
  state :: home_state
  pending :: "FormData list"
  sent :: "completion_params list"
  console :: "log_entry list"

datatype event = Change target | Validate | Submit | Reset | Settle nat outcome

definition initialPage :: page where
  "initialPage = \<lparr>state = initialState, pending = [], sent = [], console = []\<rparr>"

text \<open>The handlers called in any order, with nothing of the rendered page in the way.\<close>

fun dispatch :: "event \<Rightarrow> page \<Rightarrow> page" where
  "dispatch (Change t) p = p\<lparr>state := handleChange t (state p)\<rparr>"
| "dispatch Validate p = p\<lparr>state := snd (validateForm (state p))\<rparr>"
| "dispatch Submit p =
     (case handleSubmit_request (state p) of
        (s1, None) \<Rightarrow> p\<lparr>state := s1\<rparr>
      | (s1, Some req) \<Rightarrow>
          p\<lparr>state := s1, pending := pending p @ [formData (state p)], sent := sent p @ [req]\<rparr>)"
| "dispatch Reset p = p\<lparr>state := handleReset (state p)\<rparr>"
| "dispatch (Settle i out) p =
     (if i < length (pending p)
      then p\<lparr>state := fst (handleSubmit_settle (pending p ! i) out (state p)),
             pending := take i (pending p) @ drop (Suc i) (pending p),
             console := console p @ snd (handleSubmit_settle (pending p ! i) out (state p))\<rparr>
      else p)"

text \<open>
  What the rendered page lets through. The form with its inputs and its submit button is
  rendered when \<open>result\<close> is \<open>null\<close>, the result view with its reset button otherwise; the
  submit button is \<open>disabled={isLoading}\<close>; nothing on the page calls \<open>validateForm\<close>
  alone.
\<close>

fun enabled :: "event \<Rightarrow> page \<Rightarrow> bool" where
  "enabled (Change t) p = (result (state p) = None)"
| "enabled Validate p = False"
| "enabled Submit p = (result (state p) = None \<and> \<not> isLoading (state p))"
| "enabled Reset p = (result (state p) \<noteq> None)"
| "enabled (Settle i out) p = (i < length (pending p))"

definition userEvent :: "event \<Rightarrow> page \<Rightarrow> page" where
  "userEvent e p = (if enabled e p then dispatch e p else p)"

section \<open>The form of the spec's scenario\<close>

definition exampleForm :: FormData where
  "exampleForm =
     \<lparr>brand = js ''Nike'', category = js ''Hoodie'', originalPrice = js ''80'',
      clothingUse = LightWear, yearsOld = Years1to2\<rparr>"

definition exampleState :: home_state where
  "exampleState = initialState\<lparr>formData := exampleForm\<rparr>"

text \<open>A stub client: the same answer to every request.\<close>

definition stubClient :: "outcome \<Rightarrow> completion_params \<Rightarrow> outcome" where
  "stubClient out req = out"

definition replyWith :: "jsstring \<Rightarrow> outcome" where
  "replyWith text = Resolved (ChatCompletion [Choice (Message (Some text))])"

text \<open>The user fills in the form of the scenario, one control after the other.\<close>

definition exampleEdits :: "event list" where
  "exampleEdits =
     [Change (BrandInput (js ''Nike'')), Change (CategoryInput (js ''Hoodie'')),
      Change (OriginalPriceInput (js ''80'')), Change (ClothingUseSelect LightWear),
      Change (YearsOldSelect Years1to2)]"

definition examplePage :: page where
  "examplePage = initialPage\<lparr>state := exampleState\<rparr>"

text \<open>
  Every form that a waiting call has captured, and the form stored with the result if
  there is one, passes the validation.
\<close>

definition snapshotsValid :: "page \<Rightarrow> bool" where
  "snapshotsValid p =
     (list_all (\<lambda>fd. newErrors fd = []) (pending p) \<and>
      (case result (state p) of None \<Rightarrow> True | Some r \<Rightarrow> newErrors (data r) = []))"

section \<open>The prompt as the specification writes it\<close>

text \<open>
  The specification gives the user message as a template with placeholders in braces. The
  two definitions below follow the specification, not the source: \<open>interpolate\<close> copies
  the template and puts the value bound to a name in place of each \<open>{name}\<close>;
  a placeholder with no binding, or one that is not closed, stays as it is written.
\<close>

fun interpolateFrom :: "(string \<times> jsstring) list \<Rightarrow> string option \<Rightarrow> string \<Rightarrow> jsstring" where
  "interpolateFrom b None [] = []"
| "interpolateFrom b None (c # cs) =
     (if c = CHR ''{'' then interpolateFrom b (Some []) cs
      else of_char c # interpolateFrom b None cs)"
| "interpolateFrom b (Some nm) [] = js (CHR ''{'' # nm)"
| "interpolateFrom b (Some nm) (c # cs) =
     (if c = CHR ''}''
      then (case map_of b nm of
              Some v \<Rightarrow> v
            | None \<Rightarrow> js (CHR ''{'' # nm @ [CHR ''}'']))
           @ interpolateFrom b None cs
      else interpolateFrom b (Some (nm @ [c])) cs)"

definition interpolate :: "(string \<times> jsstring) list \<Rightarrow> string \<Rightarrow> jsstring" where
  "interpolate b template = interpolateFrom b None template"

definition specPromptTemplate :: string where
  "specPromptTemplate =
     ''Estimate the resale value of a {category} from {brand} that is {wearLevel} and {ageBracket} old. The original price was ${originalPrice}. Output only the number amount you think it would cost.''"

section \<open>Trimming and the price pattern\<close>

text \<open>Trimming leaves nothing exactly when the string is white space throughout.\<close>

lemma trim_Nil_iff: "(trim s = []) = list_all isWhiteSpace s"
proof (cases "dropWhile isWhiteSpace s")
  case Nil
  have "\<forall>x\<in>set s. isWhiteSpace x"
    using Nil by (metis dropWhile_eq_Nil_conv)
  then have "list_all isWhiteSpace s"
    by (simp add: list_all_iff)
  moreover have "trim s = []"
    unfolding trim_def Nil by simp
  ultimately show ?thesis by simp
next
  case (Cons c cs)
  then have c: "\<not> isWhiteSpace c"
    using hd_dropWhile [of isWhiteSpace s] by fastforce
  have "\<not> (\<forall>x\<in>set s. isWhiteSpace x)"
    using Cons by (metis dropWhile_eq_Nil_conv list.distinct(1))
  then have n: "\<not> list_all isWhiteSpace s"
    by (simp add: list_all_iff)
  have "dropWhile isWhiteSpace (rev (c # cs)) \<noteq> []"
    using c by simp
  then have "trim s \<noteq> []"
    unfolding trim_def Cons by simp
  with n show ?thesis by simp
qed

lemma digit_not_space: "isDigit c \<Longrightarrow> \<not> isWhiteSpace c"
  unfolding isDigit_def isWhiteSpace_def
  by (auto simp: word_le_def word_less_def)

lemma priceRegexTest_iff:
  "priceRegexTest s =
     (\<exists>ds fs. ds \<noteq> [] \<and> list_all isDigit ds \<and> list_all isDigit fs \<and>
        (s = ds \<or> (s = ds @ dot # fs \<and> (length fs = 1 \<or> length fs = 2))))"
  (is "?l = ?r")
proof
  assume l: ?l
  show ?r
  proof (cases "dropWhile isDigit s")
    case Nil
    then have "list_all isDigit s" by (simp add: list_all_iff dropWhile_eq_Nil_conv)
    moreover have "s \<noteq> []" using l by (auto simp: priceRegexTest_def)
    ultimately show ?thesis by blast
  next
    case (Cons c fs)
    with l have c: "c = dot" and fs: "length fs = 1 \<or> length fs = 2" "list_all isDigit fs"
      and ds: "takeWhile isDigit s \<noteq> []"
      by (auto simp: priceRegexTest_def)
    have "s = takeWhile isDigit s @ dot # fs"
      using takeWhile_dropWhile_id [of isDigit s] Cons c by simp
    moreover have "list_all isDigit (takeWhile isDigit s)"
      by (simp add: list_all_iff) (meson set_takeWhileD)
    ultimately show ?thesis using ds fs by blast
  qed
next
  assume ?r
  then obtain ds fs where ds: "ds \<noteq> []" "list_all isDigit ds" and fs: "list_all isDigit fs"
    and s: "s = ds \<or> (s = ds @ dot # fs \<and> (length fs = 1 \<or> length fs = 2))"
    by blast
  have nd: "\<not> isDigit dot" by (simp add: isDigit_def dot_def)
  from s show ?l
  proof
    assume "s = ds"
    moreover have t: "takeWhile isDigit ds = ds"
      using ds by (simp add: list_all_iff)
    moreover have d: "dropWhile isDigit ds = []"
      using ds by (simp add: list_all_iff)
    ultimately show ?thesis
      unfolding priceRegexTest_def using ds(1) by (simp only: t d) simp
  next
    assume a: "s = ds @ dot # fs \<and> (length fs = 1 \<or> length fs = 2)"
    have t: "takeWhile isDigit (ds @ dot # fs) = ds"
      using ds nd by (simp add: list_all_iff)
    have d: "dropWhile isDigit (ds @ dot # fs) = dot # fs"
      using ds nd by (simp add: list_all_iff)
    show ?thesis using a ds fs by (simp add: priceRegexTest_def t d)
  qed
qed

lemma priceRegexTest_trim: "priceRegexTest s \<Longrightarrow> trim s \<noteq> []"
proof -
  assume "priceRegexTest s"
  then have "takeWhile isDigit s \<noteq> []" by (simp add: priceRegexTest_def)
  then obtain c cs where s: "s = c # cs" and c: "isDigit c"
    by (cases s) (auto split: if_splits)
  then show ?thesis
    by (simp add: trim_Nil_iff digit_not_space)
qed

section \<open>Properties of validateForm\<close>

lemma js_keys_distinct:
  "js ''brand'' \<noteq> js ''category''" "js ''brand'' \<noteq> js ''originalPrice''"
  "js ''category'' \<noteq> js ''originalPrice''"
  by (simp_all add: js_def)

lemma validateForm_fst: "fst (validateForm s) = (newErrors (formData s) = [])"
  by (simp add: validateForm_def Let_def)

lemma validateForm_snd:
  "snd (validateForm s) = s\<lparr>errors := map (\<lambda>(k, v). (k, Some v)) (newErrors (formData s))\<rparr>"
  by (simp add: validateForm_def Let_def)

lemma newErrors_Nil_iff:
  "(newErrors fd = []) =
     (trim (brand fd) \<noteq> [] \<and> trim (category fd) \<noteq> [] \<and>
      originalPrice fd \<noteq> [] \<and> priceRegexTest (originalPrice fd))"
proof -
  have "priceRegexTest (originalPrice fd) \<Longrightarrow> originalPrice fd \<noteq> []"
    by (auto simp: priceRegexTest_def)
  moreover have "priceRegexTest (originalPrice fd) \<Longrightarrow> trim (originalPrice fd) \<noteq> []"
    by (rule priceRegexTest_trim)
  ultimately show ?thesis
    by (auto simp: newErrors_def)
qed

lemma exampleForm_valid: "newErrors exampleForm = []"
  by (simp add: newErrors_Nil_iff exampleForm_def js_def trim_def isWhiteSpace_def
      priceRegexTest_def isDigit_def)

text \<open>
  C1. \<open>validateForm\<close> accepts, and stores an empty error object, exactly when the brand
  and the category are not empty after trimming and the price is not empty and matches
  \<open>^\d+(\.\d{1,2})?$\<close>; and the stored object has an entry for a field exactly when
  that field breaks its rule.
\<close>

theorem validateForm_rules:
  "fst (validateForm s) =
     (trim (brand (formData s)) \<noteq> [] \<and> trim (category (formData s)) \<noteq> [] \<and>
      originalPrice (formData s) \<noteq> [] \<and> priceRegexTest (originalPrice (formData s)))
   \<and> (errors (snd (validateForm s)) = []) = fst (validateForm s)
   \<and> (map_of (errors (snd (validateForm s))) (js ''brand'') \<noteq> None)
       = (trim (brand (formData s)) = [])
   \<and> (map_of (errors (snd (validateForm s))) (js ''category'') \<noteq> None)
       = (trim (category (formData s)) = [])
   \<and> (map_of (errors (snd (validateForm s))) (js ''originalPrice'') \<noteq> None)
       = (\<not> (originalPrice (formData s) \<noteq> [] \<and> priceRegexTest (originalPrice (formData s))))"
proof -
  let ?fd = "formData s"
  have p: "priceRegexTest (originalPrice ?fd) \<Longrightarrow> originalPrice ?fd \<noteq> []"
    by (auto simp: priceRegexTest_def)
  have t: "priceRegexTest (originalPrice ?fd) \<Longrightarrow> trim (originalPrice ?fd) \<noteq> []"
    by (rule priceRegexTest_trim)
  have e: "originalPrice ?fd = [] \<Longrightarrow> trim (originalPrice ?fd) = []"
    by (simp add: trim_def)
  have 1: "fst (validateForm s) =
     (trim (brand ?fd) \<noteq> [] \<and> trim (category ?fd) \<noteq> [] \<and>
      originalPrice ?fd \<noteq> [] \<and> priceRegexTest (originalPrice ?fd))"
    by (simp only: validateForm_fst newErrors_Nil_iff)
  have 2: "(errors (snd (validateForm s)) = []) = fst (validateForm s)"
    by (simp add: validateForm_fst validateForm_snd)
  have 3: "(map_of (errors (snd (validateForm s))) (js ''brand'') \<noteq> None)
       = (trim (brand ?fd) = [])"
    by (auto simp: validateForm_snd newErrors_def js_keys_distinct)
  have 4: "(map_of (errors (snd (validateForm s))) (js ''category'') \<noteq> None)
       = (trim (category ?fd) = [])"
    by (auto simp: validateForm_snd newErrors_def js_keys_distinct js_keys_distinct [symmetric])
  have 5: "(map_of (errors (snd (validateForm s))) (js ''originalPrice'') \<noteq> None)
       = (\<not> (originalPrice ?fd \<noteq> [] \<and> priceRegexTest (originalPrice ?fd)))"
    using p t e
    by (auto simp: validateForm_snd newErrors_def js_keys_distinct js_keys_distinct [symmetric])
  from 1 2 3 4 5 show ?thesis by blast
qed

theorem validateForm_rules_witness:
  "fst (validateForm exampleState)
   \<and> errors (snd (validateForm exampleState)) = []
   \<and> \<not> fst (validateForm initialState)
   \<and> map_of (errors (snd (validateForm initialState))) (js ''brand'') \<noteq> None
   \<and> map_of (errors (snd (validateForm initialState))) (js ''category'') \<noteq> None
   \<and> map_of (errors (snd (validateForm initialState))) (js ''originalPrice'') \<noteq> None"
  using validateForm_rules [of exampleState] validateForm_rules [of initialState]
  by (simp add: exampleState_def initialState_def initialFormData_def exampleForm_def js_def
      trim_def isWhiteSpace_def priceRegexTest_def isDigit_def)

section \<open>Properties of handleSubmit\<close>

lemma prompt_interpolate:
  "prompt fd =
     interpolate
       [(''category'', category fd), (''brand'', brand fd),
        (''wearLevel'', clothingUseText (clothingUse fd)),
        (''ageBracket'', yearsOldText (yearsOld fd)),
        (''originalPrice'', originalPrice fd)]
       specPromptTemplate"
  by (simp add: prompt_def interpolate_def specPromptTemplate_def js_def)

lemma handleSubmit_request_valid:
  "fst (validateForm s) \<Longrightarrow>
   handleSubmit_request s = ((snd (validateForm s))\<lparr>isLoading := True\<rparr>, Some (createParams (formData s)))"
  by (simp add: handleSubmit_request_def)

lemma handleSubmit_request_invalid:
  "\<not> fst (validateForm s) \<Longrightarrow> handleSubmit_request s = (snd (validateForm s), None)"
  by (simp add: handleSubmit_request_def)

lemma handleSubmit_valid:
  "fst (validateForm s) \<Longrightarrow>
   handleSubmit client s =
     \<lparr>final = fst (handleSubmit_settle (formData s) (client (createParams (formData s)))
                 ((snd (validateForm s))\<lparr>isLoading := True\<rparr>)),
      calls = [createParams (formData s)],
      logged = snd (handleSubmit_settle (formData s) (client (createParams (formData s)))
                 ((snd (validateForm s))\<lparr>isLoading := True\<rparr>))\<rparr>"
  by (simp add: handleSubmit_def handleSubmit_request_valid)

lemma handleSubmit_settle_thrown:
  "awaitContent out = Inl e \<Longrightarrow>
   handleSubmit_settle fd out s = (s\<lparr>isLoading := False\<rparr>, [(js ''Error calling GPT API:'', e)])"
  by (simp add: handleSubmit_settle_def)

lemma handleSubmit_settle_content:
  "awaitContent out = Inr raw \<Longrightarrow>
   handleSubmit_settle fd out s =
     (s\<lparr>result := Some \<lparr>estimatedPrice = estimatedPriceOf raw, data = fd\<rparr>, isLoading := False\<rparr>, [])"
  by (simp add: handleSubmit_settle_def)

lemma awaitContent_reply:
  "awaitContent (Resolved (ChatCompletion (Choice (Message (Some reply)) # others))) = Inr reply"
  by (simp add: awaitContent_def rawContent_def)

lemma nat_digit_range:
  "(48 \<le> n \<and> n \<le> 57) = (n \<in> {48, 49, 50, 51, 52, 53, 54, 55, 56, 57::nat})"
proof -
  have "(48 \<le> n \<and> n \<le> 57) = (n \<in> set [48..<58])"
    by (simp only: set_upt atLeastLessThan_iff) arith
  also have "[48..<58] = [48, 49, 50, 51, 52, 53, 54, 55, 56, 57::nat]"
    by simp
  finally show ?thesis by simp
qed

lemma isDigit_iff: "isDigit c = (c \<in> {48, 49, 50, 51, 52, 53, 54, 55, 56, 57})"
proof -
  have "isDigit c = (48 \<le> unat c \<and> unat c \<le> 57)"
    by (simp add: isDigit_def word_le_nat_alt)
  also have "\<dots> = (unat c \<in> {48, 49, 50, 51, 52, 53, 54, 55, 56, 57})"
    by (rule nat_digit_range)
  also have "\<dots> = (c \<in> {48, 49, 50, 51, 52, 53, 54, 55, 56, 57})"
    by (simp add: word_unat_eq_iff)
  finally show ?thesis .
qed

lemma keep_iff: "(isDigit c \<or> c = dot) = (c \<in> set (js ''0123456789.''))"
  unfolding isDigit_iff by (auto simp: js_def dot_def)

lemma numericPrice_chars: "numericPrice raw = filter (\<lambda>c. c \<in> set (js ''0123456789.'')) raw"
  by (simp only: numericPrice_def keep_iff)


lemma awaitContent_Rejected: "awaitContent (Rejected e) = Inl e"
  by (simp add: awaitContent_def)

lemma awaitContent_no_choice: "awaitContent (Resolved (ChatCompletion [])) = Inl TypeError"
  by (simp add: awaitContent_def rawContent_def)

lemma exampleState_valid: "fst (validateForm exampleState)"
  by (simp add: validateForm_fst exampleState_def exampleForm_valid)

text \<open>
  C2. When the brand or the category is empty after trimming, or the price is empty or
  does not match the pattern, the error object is not empty and \<open>handleSubmit\<close> stops
  after \<open>validateForm\<close>: the error object is stored, no request is issued, nothing is
  logged, and the loading flag, the result and the form are as they were.
\<close>

theorem handleSubmit_invalid_aborts:
  assumes "trim (brand (formData s)) = [] \<or> trim (category (formData s)) = []
           \<or> originalPrice (formData s) = [] \<or> \<not> priceRegexTest (originalPrice (formData s))"
  shows "newErrors (formData s) \<noteq> []
         \<and> snd (handleSubmit_request s) = None
         \<and> handleSubmit client s =
           \<lparr>final = s\<lparr>errors := map (\<lambda>(k, v). (k, Some v)) (newErrors (formData s))\<rparr>,
            calls = [], logged = []\<rparr>
         \<and> errors (final (handleSubmit client s)) \<noteq> []
         \<and> isLoading (final (handleSubmit client s)) = isLoading s
         \<and> result (final (handleSubmit client s)) = result s
         \<and> formData (final (handleSubmit client s)) = formData s"
proof -
  have n: "newErrors (formData s) \<noteq> []"
    using assms by (auto simp: newErrors_Nil_iff)
  then have "\<not> fst (validateForm s)"
    by (simp add: validateForm_fst)
  then have r: "handleSubmit_request s = (snd (validateForm s), None)"
    by (rule handleSubmit_request_invalid)
  show ?thesis
    using n by (simp add: handleSubmit_def r validateForm_snd)
qed

theorem handleSubmit_invalid_aborts_witness:
  "trim (brand (formData initialState)) = []
   \<and> calls (handleSubmit (stubClient (replyWith (js ''32''))) initialState) = []
   \<and> errors (final (handleSubmit (stubClient (replyWith (js ''32''))) initialState)) =
        [(js ''brand'', Some (js ''Brand name is required'')),
         (js ''category'', Some (js ''Category is required'')),
         (js ''originalPrice'', Some (js ''Original price is required''))]
   \<and> \<not> isLoading (final (handleSubmit (stubClient (replyWith (js ''32''))) initialState))
   \<and> result (final (handleSubmit (stubClient (replyWith (js ''32''))) initialState)) = None"
proof -
  have e: "newErrors (formData initialState) =
        [(js ''brand'', js ''Brand name is required''),
         (js ''category'', js ''Category is required''),
         (js ''originalPrice'', js ''Original price is required'')]"
    by (simp add: initialState_def initialFormData_def newErrors_def trim_def)
  have b: "trim (brand (formData initialState)) = []"
    by (simp add: initialState_def initialFormData_def trim_def)
  then have h: "trim (brand (formData initialState)) = [] \<or> trim (category (formData initialState)) = []
           \<or> originalPrice (formData initialState) = []
           \<or> \<not> priceRegexTest (originalPrice (formData initialState))"
    by (rule disjI1)
  show ?thesis
    using b handleSubmit_invalid_aborts [OF h, of "stubClient (replyWith (js ''32''))"]
    by (simp add: e) (simp add: initialState_def)
qed

text \<open>
  C3. On a valid form and a reply with text, the stored price is the reply without the
  characters that are neither a digit nor the decimal point, or \<open>0\<close> when nothing is
  left; the reply \<open>$45.00 approximately\<close> gives \<open>45.00\<close>.
\<close>

theorem estimatedPrice_keeps_digits_and_dots:
  assumes "fst (validateForm s)"
    and "client (createParams (formData s)) =
           Resolved (ChatCompletion (Choice (Message (Some reply)) # others))"
  shows "result (final (handleSubmit client s)) =
           Some \<lparr>estimatedPrice =
                   (if filter (\<lambda>c. c \<in> set (js ''0123456789.'')) reply = [] then js ''0''
                    else filter (\<lambda>c. c \<in> set (js ''0123456789.'')) reply),
                 data = formData s\<rparr>
         \<and> (reply = js ''$45.00 approximately'' \<longrightarrow>
              result (final (handleSubmit client s)) =
                Some \<lparr>estimatedPrice = js ''45.00'', data = formData s\<rparr>)"
proof -
  have r: "result (final (handleSubmit client s)) =
             Some \<lparr>estimatedPrice = estimatedPriceOf reply, data = formData s\<rparr>"
    using assms
    by (simp add: handleSubmit_valid handleSubmit_settle_content [OF awaitContent_reply])
  have e: "estimatedPriceOf (js ''$45.00 approximately'') = js ''45.00''"
    by (simp add: estimatedPriceOf_def numericPrice_def js_def isDigit_def dot_def)
  have f: "estimatedPriceOf reply =
      (if filter (\<lambda>c. c \<in> set (js ''0123456789.'')) reply = [] then js ''0''
       else filter (\<lambda>c. c \<in> set (js ''0123456789.'')) reply)"
    by (simp only: estimatedPriceOf_def numericPrice_chars)
  have A: "result (final (handleSubmit client s)) =
           Some \<lparr>estimatedPrice =
                   (if filter (\<lambda>c. c \<in> set (js ''0123456789.'')) reply = [] then js ''0''
                    else filter (\<lambda>c. c \<in> set (js ''0123456789.'')) reply),
                 data = formData s\<rparr>"
    unfolding r f by (rule refl)
  have B: "reply = js ''$45.00 approximately'' \<longrightarrow>
      result (final (handleSubmit client s)) =
        Some \<lparr>estimatedPrice = js ''45.00'', data = formData s\<rparr>"
  proof (rule impI)
    assume q: "reply = js ''$45.00 approximately''"
    show "result (final (handleSubmit client s)) =
        Some \<lparr>estimatedPrice = js ''45.00'', data = formData s\<rparr>"
      unfolding r q e by (rule refl)
  qed
  from A B show ?thesis by (rule conjI)
qed

theorem estimatedPrice_keeps_digits_and_dots_witness:
  "fst (validateForm exampleState)
   \<and> result (final (handleSubmit (stubClient (replyWith (js ''$45.00 approximately''))) exampleState)) =
       Some \<lparr>estimatedPrice = js ''45.00'', data = exampleForm\<rparr>"
proof -
  have v: "fst (validateForm exampleState)"
    by (rule exampleState_valid)
  have c: "stubClient (replyWith (js ''$45.00 approximately'')) (createParams (formData exampleState)) =
           Resolved (ChatCompletion (Choice (Message (Some (js ''$45.00 approximately''))) # []))"
    by (simp add: stubClient_def replyWith_def)
  have fd: "formData exampleState = exampleForm"
    by (simp add: exampleState_def)
  have "js ''$45.00 approximately'' = js ''$45.00 approximately'' \<longrightarrow>
      result (final (handleSubmit (stubClient (replyWith (js ''$45.00 approximately''))) exampleState)) =
        Some \<lparr>estimatedPrice = js ''45.00'', data = formData exampleState\<rparr>"
    using estimatedPrice_keeps_digits_and_dots
      [of exampleState "stubClient (replyWith (js ''$45.00 approximately''))"
          "js ''$45.00 approximately''" "[]", OF v c]
    by (rule conjunct2)
  then have "result (final (handleSubmit (stubClient (replyWith (js ''$45.00 approximately''))) exampleState)) =
        Some \<lparr>estimatedPrice = js ''45.00'', data = formData exampleState\<rparr>"
    by (rule mp) (rule refl)
  with v show ?thesis
    unfolding fd by (rule conjI)
qed

text \<open>
  A reply without a digit can still hold a decimal point, which the pattern
  \<open>[^0-9.]\<close> keeps: the reply \<open>I cannot estimate.\<close>, with its full stop, is stored as
  the price \<open>.\<close> and not as \<open>0\<close>.
\<close>

theorem no_digit_reply_counterexample:
  "fst (validateForm exampleState)
   \<and> filter isDigit (js ''I cannot estimate.'') = []
   \<and> result (final (handleSubmit (stubClient (replyWith (js ''I cannot estimate.''))) exampleState)) =
       Some \<lparr>estimatedPrice = js ''.'', data = exampleForm\<rparr>
   \<and> js ''.'' \<noteq> js ''0''"
proof -
  have v: "fst (validateForm exampleState)"
    by (simp add: validateForm_fst exampleState_def exampleForm_valid)
  have n: "filter isDigit (js ''I cannot estimate.'') = []"
    by (simp add: js_def isDigit_def)
  have a: "awaitContent (stubClient (replyWith (js ''I cannot estimate.''))
             (createParams (formData exampleState))) = Inr (js ''I cannot estimate.'')"
    by (simp add: stubClient_def replyWith_def awaitContent_reply)
  have e: "estimatedPriceOf (js ''I cannot estimate.'') = js ''.''"
    by (simp add: estimatedPriceOf_def numericPrice_def js_def isDigit_def dot_def)
  have r: "result (final (handleSubmit (stubClient (replyWith (js ''I cannot estimate.''))) exampleState)) =
       Some \<lparr>estimatedPrice = js ''.'', data = exampleForm\<rparr>"
    using v by (simp add: handleSubmit_valid handleSubmit_settle_content [OF a] e)
       (simp add: exampleState_def)
  have d: "js ''.'' \<noteq> js ''0''"
    by (simp add: js_def)
  from v n r d show ?thesis by simp
qed

text \<open>
  C4, as the code has it. On a valid form, a reply that holds no digit and no decimal
  point is stored as the price \<open>0\<close>.
\<close>

theorem no_digit_no_dot_reply_gives_zero:
  assumes "fst (validateForm s)"
    and "client (createParams (formData s)) =
           Resolved (ChatCompletion (Choice (Message (Some reply)) # others))"
    and "filter isDigit reply = []"
    and "dot \<notin> set reply"
  shows "result (final (handleSubmit client s)) =
           Some \<lparr>estimatedPrice = js ''0'', data = formData s\<rparr>"
proof -
  have "filter (\<lambda>c. isDigit c \<or> c = dot) reply = []"
    using assms(3,4) by (induction reply) (auto split: if_splits)
  then have "estimatedPriceOf reply = js ''0''"
    by (simp add: estimatedPriceOf_def numericPrice_def)
  then show ?thesis
    using assms(1,2)
    by (simp add: handleSubmit_valid handleSubmit_settle_content [OF awaitContent_reply])
qed

theorem no_digit_no_dot_reply_gives_zero_witness:
  "fst (validateForm exampleState)
   \<and> filter isDigit (js ''I cannot estimate'') = []
   \<and> dot \<notin> set (js ''I cannot estimate'')
   \<and> result (final (handleSubmit (stubClient (replyWith (js ''I cannot estimate''))) exampleState)) =
       Some \<lparr>estimatedPrice = js ''0'', data = exampleForm\<rparr>"
proof -
  have v: "fst (validateForm exampleState)"
    by (simp add: validateForm_fst exampleState_def exampleForm_valid)
  have c: "stubClient (replyWith (js ''I cannot estimate'')) (createParams (formData exampleState)) =
           Resolved (ChatCompletion (Choice (Message (Some (js ''I cannot estimate''))) # []))"
    by (simp add: stubClient_def replyWith_def)
  have n: "filter isDigit (js ''I cannot estimate'') = []"
    by (simp add: js_def isDigit_def)
  have d: "dot \<notin> set (js ''I cannot estimate'')"
    by (simp add: js_def dot_def)
  have fd: "formData exampleState = exampleForm"
    by (simp add: exampleState_def)
  have "result (final (handleSubmit (stubClient (replyWith (js ''I cannot estimate''))) exampleState)) =
       Some \<lparr>estimatedPrice = js ''0'', data = formData exampleState\<rparr>"
    using no_digit_no_dot_reply_gives_zero
      [of exampleState "stubClient (replyWith (js ''I cannot estimate''))"
          "js ''I cannot estimate''" "[]", OF v c n d] .
  with v n d show ?thesis
    unfolding fd by simp
qed

text \<open>
  C5. On a valid form, when the awaited call throws (the promise is rejected, or the
  completion has no choice to read), the error is written to the console, the request
  has been issued once, the result and the form are as they were, the loading flag is
  cleared; and a second \<open>handleSubmit\<close> whose call comes back with content stores the
  result for the same form.
\<close>

theorem transport_failure_recovers:
  assumes "fst (validateForm s)"
    and "awaitContent (client (createParams (formData s))) = Inl e"
    and "awaitContent (retry (createParams (formData s))) = Inr raw"
  shows "logged (handleSubmit client s) = [(js ''Error calling GPT API:'', e)]
         \<and> calls (handleSubmit client s) = [createParams (formData s)]
         \<and> result (final (handleSubmit client s)) = result s
         \<and> isLoading (final (handleSubmit client s)) = False
         \<and> formData (final (handleSubmit client s)) = formData s
         \<and> errors (final (handleSubmit client s)) = []
         \<and> final (handleSubmit retry (final (handleSubmit client s))) =
             \<lparr>formData = formData s,
              result = Some \<lparr>estimatedPrice = estimatedPriceOf raw, data = formData s\<rparr>,
              errors = [], isLoading = False\<rparr>"
proof -
  have n: "newErrors (formData s) = []"
    using assms(1) by (simp add: validateForm_fst)
  have f: "final (handleSubmit client s) = s\<lparr>errors := [], isLoading := False\<rparr>"
    using assms(1)
    by (simp add: handleSubmit_valid handleSubmit_settle_thrown [OF assms(2)] validateForm_snd n)
  have l: "logged (handleSubmit client s) = [(js ''Error calling GPT API:'', e)]"
    using assms(1)
    by (simp add: handleSubmit_valid handleSubmit_settle_thrown [OF assms(2)])
  have c: "calls (handleSubmit client s) = [createParams (formData s)]"
    using assms(1) by (simp add: handleSubmit_valid)
  have v': "fst (validateForm (s\<lparr>errors := [], isLoading := False\<rparr>))"
    using n by (simp add: validateForm_fst)
  have a': "awaitContent (retry (createParams (formData (s\<lparr>errors := [], isLoading := False\<rparr>)))) = Inr raw"
    using assms(3) by simp
  have g: "final (handleSubmit retry (s\<lparr>errors := [], isLoading := False\<rparr>)) =
             \<lparr>formData = formData s,
              result = Some \<lparr>estimatedPrice = estimatedPriceOf raw, data = formData s\<rparr>,
              errors = [], isLoading = False\<rparr>"
    using v'
    by (simp add: handleSubmit_valid handleSubmit_settle_content [OF assms(3)] validateForm_snd n)
  show ?thesis
    unfolding f using l c g unfolding f by simp
qed

theorem transport_failure_recovers_witness:
  "fst (validateForm exampleState)
   \<and> logged (handleSubmit (stubClient (Rejected (BadStatus 500))) exampleState) =
       [(js ''Error calling GPT API:'', BadStatus 500)]
   \<and> result (final (handleSubmit (stubClient (Rejected (BadStatus 500))) exampleState)) = None
   \<and> \<not> isLoading (final (handleSubmit (stubClient (Rejected (BadStatus 500))) exampleState))
   \<and> result (final (handleSubmit (stubClient (replyWith (js ''32'')))
        (final (handleSubmit (stubClient (Rejected (BadStatus 500))) exampleState)))) =
       Some \<lparr>estimatedPrice = js ''32'', data = exampleForm\<rparr>"
proof -
  have v: "fst (validateForm exampleState)"
    by (simp add: validateForm_fst exampleState_def exampleForm_valid)
  have a: "awaitContent (stubClient (Rejected (BadStatus 500)) (createParams (formData exampleState))) =
        Inl (BadStatus 500)"
    by (simp add: stubClient_def awaitContent_def)
  have b: "awaitContent (stubClient (replyWith (js ''32'')) (createParams (formData exampleState))) =
        Inr (js ''32'')"
    by (simp add: stubClient_def replyWith_def awaitContent_reply)
  have e: "estimatedPriceOf (js ''32'') = js ''32''"
    by (simp add: estimatedPriceOf_def numericPrice_def js_def isDigit_def dot_def)
  have fd: "formData exampleState = exampleForm" "result exampleState = None"
    by (simp_all add: exampleState_def initialState_def)
  show ?thesis
    using v transport_failure_recovers
      [of exampleState "stubClient (Rejected (BadStatus 500))" "BadStatus 500"
          "stubClient (replyWith (js ''32''))" "js ''32''", OF v a b]
    by (simp add: e fd)
qed

text \<open>
  \<open>validateForm\<close> is not free of effects: it calls \<open>setErrors\<close>. On the initial
  page, whose error object is empty, it leaves three entries behind.
\<close>

theorem validateForm_changes_errors_counterexample:
  "errors initialState = []
   \<and> errors (snd (validateForm initialState)) =
        [(js ''brand'', Some (js ''Brand name is required'')),
         (js ''category'', Some (js ''Category is required'')),
         (js ''originalPrice'', Some (js ''Original price is required''))]
   \<and> snd (validateForm initialState) \<noteq> initialState"
proof -
  have e: "newErrors (formData initialState) =
        [(js ''brand'', js ''Brand name is required''),
         (js ''category'', js ''Category is required''),
         (js ''originalPrice'', js ''Original price is required'')]"
    by (simp add: initialState_def initialFormData_def newErrors_def trim_def)
  have 1: "errors initialState = []"
    by (simp add: initialState_def)
  have 2: "errors (snd (validateForm initialState)) =
        [(js ''brand'', Some (js ''Brand name is required'')),
         (js ''category'', Some (js ''Category is required'')),
         (js ''originalPrice'', Some (js ''Original price is required''))]"
    by (simp add: validateForm_snd e)
  from 1 2 have "errors (snd (validateForm initialState)) \<noteq> errors initialState"
    by simp
  then have "snd (validateForm initialState) \<noteq> initialState"
    by auto
  with 1 2 show ?thesis by simp
qed

text \<open>
  C6, as the code has it. What \<open>validateForm\<close> returns and stores is a function of the
  form alone; it leaves the form, the result and the loading flag as they were, and
  replaces the error object by the one it has built.
\<close>

theorem validateForm_only_sets_errors:
  "validateForm s =
     (newErrors (formData s) = [],
      s\<lparr>errors := map (\<lambda>(k, v). (k, Some v)) (newErrors (formData s))\<rparr>)
   \<and> formData (snd (validateForm s)) = formData s
   \<and> result (snd (validateForm s)) = result s
   \<and> isLoading (snd (validateForm s)) = isLoading s
   \<and> (formData s = formData s' \<longrightarrow>
        fst (validateForm s) = fst (validateForm s')
        \<and> errors (snd (validateForm s)) = errors (snd (validateForm s')))"
  by (simp add: validateForm_def Let_def)

theorem validateForm_only_sets_errors_witness:
  "formData exampleState = formData (exampleState\<lparr>isLoading := True, errors := [(js ''brand'', None)]\<rparr>)
   \<and> fst (validateForm exampleState)
   \<and> fst (validateForm (exampleState\<lparr>isLoading := True, errors := [(js ''brand'', None)]\<rparr>))
   \<and> errors (snd (validateForm (exampleState\<lparr>isLoading := True, errors := [(js ''brand'', None)]\<rparr>))) = []
   \<and> isLoading (snd (validateForm (exampleState\<lparr>isLoading := True, errors := [(js ''brand'', None)]\<rparr>)))"
proof -
  have v: "fst (validateForm exampleState)"
    by (simp add: validateForm_fst exampleState_def exampleForm_valid)
  have n: "errors (snd (validateForm exampleState)) = []"
    by (simp add: validateForm_snd exampleState_def exampleForm_valid)
  show ?thesis
    using v n validateForm_only_sets_errors
      [of "exampleState\<lparr>isLoading := True, errors := [(js ''brand'', None)]\<rparr>" exampleState]
    by (simp add: exampleState_def exampleForm_valid)
qed

text \<open>
  C7. On a valid form \<open>handleSubmit\<close> issues one request: the model, the system message,
  the user message that is the specification's template filled with the five fields, at
  most 300 tokens, temperature 0.7 and one completion.
\<close>

theorem handleSubmit_one_request:
  assumes "fst (validateForm s)"
  shows "calls (handleSubmit client s) =
     [\<lparr>model = js ''gpt-4o-mini-2024-07-18'',
       messages =
         [(System, js ''You are a helpful assistant.''),
          (User,
           interpolate
             [(''category'', category (formData s)), (''brand'', brand (formData s)),
              (''wearLevel'', clothingUseText (clothingUse (formData s))),
              (''ageBracket'', yearsOldText (yearsOld (formData s))),
              (''originalPrice'', originalPrice (formData s))]
             specPromptTemplate)],
       max_tokens = 300, temperature = 7 / 10, n_completions = 1\<rparr>]"
  using assms
  by (simp add: handleSubmit_valid createParams_def prompt_interpolate)

theorem handleSubmit_one_request_witness:
  "fst (validateForm exampleState)
   \<and> calls (handleSubmit (stubClient (replyWith (js ''32''))) exampleState) =
     [\<lparr>model = js ''gpt-4o-mini-2024-07-18'',
       messages =
         [(System, js ''You are a helpful assistant.''),
          (User, js ''Estimate the resale value of a Hoodie from Nike that is Light Wear and 1-2 years old. The original price was $80. Output only the number amount you think it would cost.'')],
       max_tokens = 300, temperature = 7 / 10, n_completions = 1\<rparr>]"
proof -
  have v: "fst (validateForm exampleState)"
    by (rule exampleState_valid)
  have p: "interpolate
             [(''category'', category (formData exampleState)), (''brand'', brand (formData exampleState)),
              (''wearLevel'', clothingUseText (clothingUse (formData exampleState))),
              (''ageBracket'', yearsOldText (yearsOld (formData exampleState))),
              (''originalPrice'', originalPrice (formData exampleState))]
             specPromptTemplate =
           js ''Estimate the resale value of a Hoodie from Nike that is Light Wear and 1-2 years old. The original price was $80. Output only the number amount you think it would cost.''"
    by (simp add: interpolate_def specPromptTemplate_def exampleState_def exampleForm_def js_def)
  show ?thesis
    using v handleSubmit_one_request [OF v, of "stubClient (replyWith (js ''32''))"]
    unfolding p by simp
qed

text \<open>
  C9. \<open>handleReset\<close> puts the form back to the values the page starts with, clears the
  error object and the result, leaves the loading flag alone, and changes nothing when
  it runs a second time; on the page it touches the state only.
\<close>

theorem handleReset_defaults:
  "handleReset s =
     \<lparr>formData =
        \<lparr>brand = [], category = [], originalPrice = [],
         clothingUse = NotWorn, yearsOld = LessThan1Year\<rparr>,
      result = None, errors = [], isLoading = isLoading s\<rparr>
   \<and> formData (handleReset s) = formData initialState
   \<and> clothingUseText (clothingUse (formData (handleReset s))) = js ''Not Worn''
   \<and> yearsOldText (yearsOld (formData (handleReset s))) = js ''Less than 1 year''
   \<and> handleReset (handleReset s) = handleReset s
   \<and> dispatch Reset p = p\<lparr>state := handleReset (state p)\<rparr>"
  by (simp add: handleReset_def initialState_def initialFormData_def)

theorem handleReset_defaults_witness:
  "handleReset
     \<lparr>formData = exampleForm,
      result = Some \<lparr>estimatedPrice = js ''32'', data = exampleForm\<rparr>,
      errors = [(js ''brand'', None)], isLoading = False\<rparr> = initialState"
  using handleReset_defaults
    [of "\<lparr>formData = exampleForm,
      result = Some \<lparr>estimatedPrice = js ''32'', data = exampleForm\<rparr>,
      errors = [(js ''brand'', None)], isLoading = False\<rparr>"]
  by (simp add: initialState_def initialFormData_def)

section \<open>Properties of the page\<close>

lemma handleChange_keeps:
  "result (handleChange t s) = result s" "isLoading (handleChange t s) = isLoading s"
  by (simp_all add: handleChange_def Let_def)

lemma handleSubmit_settle_result:
  "result (fst (handleSubmit_settle fd out s)) =
     (case awaitContent out of
        Inl e \<Rightarrow> result s
      | Inr raw \<Rightarrow> Some \<lparr>estimatedPrice = estimatedPriceOf raw, data = fd\<rparr>)"
  by (simp add: handleSubmit_settle_def split: sum.split)

lemma handleSubmit_settle_isLoading: "isLoading (fst (handleSubmit_settle fd out s)) = False"
  by (simp add: handleSubmit_settle_def split: sum.split)

lemma list_all_remove_nth:
  "list_all P xs \<Longrightarrow> list_all P (take i xs @ drop (Suc i) xs)"
  by (auto simp: list_all_iff dest: in_set_takeD in_set_dropD)

lemma snapshotsValid_initial: "snapshotsValid initialPage"
  by (simp add: snapshotsValid_def initialPage_def initialState_def)

lemma snapshotsValid_dispatch:
  assumes "snapshotsValid p"
  shows "snapshotsValid (dispatch e p)"
proof (cases e)
  case (Change t)
  with assms show ?thesis
    by (simp add: snapshotsValid_def handleChange_keeps)
next
  case Validate
  with assms show ?thesis
    by (simp add: snapshotsValid_def validateForm_snd)
next
  case Submit
  show ?thesis
  proof (cases "fst (validateForm (state p))")
    case True
    then have "newErrors (formData (state p)) = []"
      by (simp add: validateForm_fst)
    with assms True Submit show ?thesis
      by (simp add: snapshotsValid_def handleSubmit_request_valid validateForm_snd)
  next
    case False
    with assms Submit show ?thesis
      by (simp add: snapshotsValid_def handleSubmit_request_invalid validateForm_snd)
  qed
next
  case Reset
  with assms show ?thesis
    by (simp add: snapshotsValid_def handleReset_def)
next
  case (Settle i out)
  show ?thesis
  proof (cases "i < length (pending p)")
    case True
    from assms have a: "list_all (\<lambda>fd. newErrors fd = []) (pending p)"
      by (simp add: snapshotsValid_def)
    with True have "newErrors (pending p ! i) = []"
      by (simp add: list_all_length)
    moreover from a have "list_all (\<lambda>fd. newErrors fd = []) (take i (pending p) @ drop (Suc i) (pending p))"
      by (rule list_all_remove_nth)
    ultimately show ?thesis
      using assms True Settle
      by (simp add: snapshotsValid_def handleSubmit_settle_result split: sum.split)
  next
    case False
    with assms Settle show ?thesis by simp
  qed
qed

lemma snapshotsValid_userEvent: "snapshotsValid p \<Longrightarrow> snapshotsValid (userEvent e p)"
  by (simp add: userEvent_def snapshotsValid_dispatch)

lemma snapshotsValid_run:
  "snapshotsValid p \<Longrightarrow> snapshotsValid (fold dispatch evs p)"
  by (induction evs arbitrary: p) (simp_all add: snapshotsValid_dispatch)

lemma snapshotsValid_userRun:
  "snapshotsValid p \<Longrightarrow> snapshotsValid (fold userEvent evs p)"
  by (induction evs arbitrary: p) (simp_all add: snapshotsValid_userEvent)

lemma exampleEdits_dispatch: "fold dispatch exampleEdits initialPage = examplePage"
  by (simp add: exampleEdits_def initialPage_def examplePage_def exampleState_def initialState_def
      initialFormData_def exampleForm_def handleChange_def)

lemma exampleEdits_userEvent: "fold userEvent exampleEdits initialPage = examplePage"
  by (simp add: exampleEdits_def initialPage_def examplePage_def exampleState_def initialState_def
      initialFormData_def exampleForm_def handleChange_def userEvent_def)

lemma examplePage_Submit:
  "dispatch Submit examplePage =
     examplePage\<lparr>state := exampleState\<lparr>isLoading := True\<rparr>, pending := [exampleForm],
                 sent := [createParams exampleForm]\<rparr>"
proof -
  have v: "fst (validateForm exampleState)"
    by (simp add: validateForm_fst exampleState_def exampleForm_valid)
  have "snd (validateForm exampleState) = exampleState"
    by (simp add: validateForm_snd exampleState_def exampleForm_valid initialState_def)
  with v show ?thesis
    by (simp add: examplePage_def initialPage_def handleSubmit_request_valid)
       (simp add: exampleState_def)
qed

lemma oneRequest_userEvent:
  assumes "length (pending p) \<le> 1" and "isLoading (state p) = (pending p \<noteq> [])"
  shows "length (pending (userEvent e p)) \<le> 1
         \<and> isLoading (state (userEvent e p)) = (pending (userEvent e p) \<noteq> [])"
proof (cases "enabled e p")
  case False
  with assms show ?thesis by (simp add: userEvent_def)
next
  case en: True
  show ?thesis
  proof (cases e)
    case (Change t)
    with assms en show ?thesis
      by (simp add: userEvent_def handleChange_keeps)
  next
    case Validate
    with en show ?thesis by simp
  next
    case Submit
    with en assms have idle: "pending p = []"
      by simp
    show ?thesis
    proof (cases "fst (validateForm (state p))")
      case True
      with Submit en idle show ?thesis
        by (simp add: userEvent_def handleSubmit_request_valid)
    next
      case False
      with Submit en idle assms show ?thesis
        by (simp add: userEvent_def handleSubmit_request_invalid validateForm_snd)
    qed
  next
    case Reset
    with assms en show ?thesis
      by (simp add: userEvent_def handleReset_def)
  next
    case (Settle i out)
    with en assms have "i = 0" "length (pending p) = 1"
      by auto
    with Settle en show ?thesis
      by (simp add: userEvent_def handleSubmit_settle_isLoading)
  qed
qed

lemma oneRequest_userRun:
  "length (pending p) \<le> 1 \<and> isLoading (state p) = (pending p \<noteq> []) \<Longrightarrow>
   length (pending (fold userEvent evs p)) \<le> 1
   \<and> isLoading (state (fold userEvent evs p)) = (pending (fold userEvent evs p) \<noteq> [])"
proof (induction evs arbitrary: p)
  case Nil
  then show ?case by simp
next
  case (Cons e evs)
  have "length (pending (userEvent e p)) \<le> 1
         \<and> isLoading (state (userEvent e p)) = (pending (userEvent e p) \<noteq> [])"
    using oneRequest_userEvent [of p e] Cons.prems by blast
  then show ?case
    using Cons.IH [of "userEvent e p"] by simp
qed

text \<open>
  \<open>handleSubmit\<close> does not look at the loading flag. Called a second time while the
  first call waits for its answer, it issues a second request.
\<close>

theorem second_submit_counterexample:
  "isLoading (state (fold dispatch (exampleEdits @ [Submit]) initialPage))
   \<and> sent (fold dispatch (exampleEdits @ [Submit]) initialPage) = [createParams exampleForm]
   \<and> sent (fold dispatch (exampleEdits @ [Submit, Submit]) initialPage) =
        [createParams exampleForm, createParams exampleForm]
   \<and> pending (fold dispatch (exampleEdits @ [Submit, Submit]) initialPage) =
        [exampleForm, exampleForm]"
proof -
  have v: "fst (validateForm (exampleState\<lparr>isLoading := True\<rparr>))"
    by (simp add: validateForm_fst exampleState_def exampleForm_valid)
  have f: "formData (exampleState\<lparr>isLoading := True\<rparr>) = exampleForm"
    by (simp add: exampleState_def)
  have 1: "fold dispatch (exampleEdits @ [Submit]) initialPage = dispatch Submit examplePage"
    by (simp add: exampleEdits_dispatch del: dispatch.simps)
  have 2: "fold dispatch (exampleEdits @ [Submit, Submit]) initialPage =
      dispatch Submit (dispatch Submit examplePage)"
    by (simp add: exampleEdits_dispatch del: dispatch.simps)
  show ?thesis
    unfolding 1 2 examplePage_Submit
    by (simp add: handleSubmit_request_valid [OF v] f)
qed

text \<open>
  C8, as the code has it. Among the events that the rendered page lets through, at most
  one call waits for its answer at any moment, the loading flag is set exactly while one
  does, and a submit while the flag is set changes nothing: the button is disabled.
\<close>

theorem page_sends_one_request_at_a_time:
  "length (pending (fold userEvent evs initialPage)) \<le> 1
   \<and> isLoading (state (fold userEvent evs initialPage)) =
       (pending (fold userEvent evs initialPage) \<noteq> [])
   \<and> (isLoading (state (fold userEvent evs initialPage)) \<longrightarrow>
        userEvent Submit (fold userEvent evs initialPage) = fold userEvent evs initialPage)"
proof -
  have "length (pending initialPage) \<le> 1
      \<and> isLoading (state initialPage) = (pending initialPage \<noteq> [])"
    by (simp add: initialPage_def initialState_def)
  then have "length (pending (fold userEvent evs initialPage)) \<le> 1
   \<and> isLoading (state (fold userEvent evs initialPage)) =
       (pending (fold userEvent evs initialPage) \<noteq> [])"
    by (rule oneRequest_userRun)
  then show ?thesis
    by (simp add: userEvent_def)
qed

theorem page_sends_one_request_at_a_time_witness:
  "isLoading (state (fold userEvent (exampleEdits @ [Submit]) initialPage))
   \<and> sent (fold userEvent (exampleEdits @ [Submit]) initialPage) = [createParams exampleForm]
   \<and> fold userEvent (exampleEdits @ [Submit, Submit]) initialPage =
       fold userEvent (exampleEdits @ [Submit]) initialPage"
proof -
  have en: "enabled Submit examplePage"
    by (simp add: examplePage_def exampleState_def initialState_def)
  have p: "fold userEvent (exampleEdits @ [Submit]) initialPage =
      examplePage\<lparr>state := exampleState\<lparr>isLoading := True\<rparr>, pending := [exampleForm],
                 sent := [createParams exampleForm]\<rparr>"
    using en by (simp add: exampleEdits_userEvent userEvent_def examplePage_Submit del: dispatch.simps)
  have l: "isLoading (state (fold userEvent (exampleEdits @ [Submit]) initialPage))"
    unfolding p by simp
  have s: "sent (fold userEvent (exampleEdits @ [Submit]) initialPage) = [createParams exampleForm]"
    unfolding p by simp
  have "userEvent Submit (fold userEvent (exampleEdits @ [Submit]) initialPage) =
      fold userEvent (exampleEdits @ [Submit]) initialPage"
    using l page_sends_one_request_at_a_time [of "exampleEdits @ [Submit]"] by blast
  then have "fold userEvent (exampleEdits @ [Submit, Submit]) initialPage =
       fold userEvent (exampleEdits @ [Submit]) initialPage"
    by simp
  with l s show ?thesis by simp
qed

text \<open>
  C10. Whatever the events, in any order and with or without the rendered page in the
  way, a stored result holds a form that passes the validation: its brand and category
  are not empty after trimming and its price matches the pattern.
\<close>

theorem stored_snapshot_passes_validation:
  "(\<forall>r. result (state (fold dispatch evs initialPage)) = Some r \<longrightarrow>
        newErrors (data r) = []
        \<and> trim (brand (data r)) \<noteq> [] \<and> trim (category (data r)) \<noteq> []
        \<and> priceRegexTest (originalPrice (data r)))
   \<and> (\<forall>r. result (state (fold userEvent evs initialPage)) = Some r \<longrightarrow>
        newErrors (data r) = []
        \<and> trim (brand (data r)) \<noteq> [] \<and> trim (category (data r)) \<noteq> []
        \<and> priceRegexTest (originalPrice (data r)))"
proof -
  have "snapshotsValid (fold dispatch evs initialPage)"
    by (rule snapshotsValid_run [OF snapshotsValid_initial])
  moreover have "snapshotsValid (fold userEvent evs initialPage)"
    by (rule snapshotsValid_userRun [OF snapshotsValid_initial])
  moreover have "\<And>fd. newErrors fd = [] \<Longrightarrow>
      trim (brand fd) \<noteq> [] \<and> trim (category fd) \<noteq> [] \<and> priceRegexTest (originalPrice fd)"
    by (simp add: newErrors_Nil_iff)
  ultimately show ?thesis
    by (auto simp: snapshotsValid_def)
qed

theorem stored_snapshot_passes_validation_witness:
  "result (state (fold dispatch (exampleEdits @ [Submit, Settle 0 (replyWith (js ''32''))]) initialPage)) =
     Some \<lparr>estimatedPrice = js ''32'', data = exampleForm\<rparr>
   \<and> newErrors exampleForm = []"
proof -
  have e: "estimatedPriceOf (js ''32'') = js ''32''"
    by (simp add: estimatedPriceOf_def numericPrice_def js_def isDigit_def dot_def)
  have a: "awaitContent (replyWith (js ''32'')) = Inr (js ''32'')"
    by (simp add: replyWith_def awaitContent_reply)
  have r: "result (state (fold dispatch (exampleEdits @ [Submit, Settle 0 (replyWith (js ''32''))]) initialPage)) =
     Some \<lparr>estimatedPrice = js ''32'', data = exampleForm\<rparr>"
  proof -
    have "fold dispatch (exampleEdits @ [Submit]) initialPage = dispatch Submit examplePage"
      by (simp add: exampleEdits_dispatch del: dispatch.simps)
    then have "fold dispatch (exampleEdits @ [Submit, Settle 0 (replyWith (js ''32''))]) initialPage =
        dispatch (Settle 0 (replyWith (js ''32''))) (dispatch Submit examplePage)"
      by (simp del: dispatch.simps)
    then show ?thesis
      by (simp add: examplePage_Submit handleSubmit_settle_result a e del: dispatch.simps)
         (simp add: handleSubmit_settle_result a e)
  qed
  show ?thesis
    using r stored_snapshot_passes_validation
      [of "exampleEdits @ [Submit, Settle 0 (replyWith (js ''32''))]"]
    by simp
qed

end
